theory Spec2Isabelle
  imports Main
begin

section \<open>Go values: byte strings, errors, panics and the external tool\<close>

text \<open>
  A Go \<open>[]byte\<close> or \<open>string\<close> is a list of bytes, here \<open>string\<close> (a \<open>char list\<close>,
  one \<open>char\<close> per byte); \<open>len\<close> is \<open>length\<close>.  The two separators the parsers
  split at are the tab and the newline byte.
\<close>

abbreviation tab :: char where
  "tab \<equiv> CHR 0x09"

abbreviation nl :: char where
  "nl \<equiv> CHR 0x0A"

text \<open>
  Go error values.  \<open>ExecError\<close> is the error of \<open>cmd.Output()\<close> and \<open>cmd.Run()\<close>
  (its message, such as \<open>exit status 1\<close>); \<open>ErrorsNew\<close> and \<open>Errorf\<close> are the errors made
  on the spot by \<open>errors.New\<close> and \<open>fmt.Errorf\<close>; \<open>errBranchNotFound\<close> and \<open>ErrNoRemote\<close>
  are the package's sentinel values, compared with \<open>==\<close>; \<open>NotFoundError\<close> wraps an error.
\<close>

datatype error =
    ExecError string
  | ErrorsNew string
  | Errorf string
  | errBranchNotFound
  | ErrNoRemote
  | NotFoundError error

text \<open>The run-time panics of indexing and slicing out of range.\<close>

datatype panic = IndexOutOfRange | SliceBoundsOutOfRange

text \<open>
  The version-control binary is an opaque external process: a function from the working
  directory and the argument vector to what the process wrote and how it ended
  (\<open>err = None\<close> is exit status zero).  \<open>cmd.Output()\<close> reads \<open>stdout\<close> and \<open>err\<close>;
  \<open>dividedOutput(cmd)\<close> reads all three.  The environment the code sets for every
  command (\<open>LANG\<close>, and \<open>GIT_ASKPASS\<close> and \<open>GIT_SSH_COMMAND\<close> for the commands that
  reach the remote) is taken as part of the tool.
\<close>

record cmd_result =
  stdout :: string
  stderr :: string
  err :: "string option"

type_synonym tool = "string \<Rightarrow> string list \<Rightarrow> cmd_result"

subsection \<open>The functions of packages strings, bytes and fmt that the code calls\<close>

definition HasPrefix :: "string \<Rightarrow> string \<Rightarrow> bool" where
  "HasPrefix s p = (take (length p) s = p)"

definition HasSuffix :: "string \<Rightarrow> string \<Rightarrow> bool" where
  "HasSuffix s p = (length p \<le> length s \<and> drop (length s - length p) s = p)"

definition TrimSuffix :: "string \<Rightarrow> string \<Rightarrow> string" where
  "TrimSuffix s p = (if HasSuffix s p then take (length s - length p) s else s)"

text \<open>
  \<open>strings.Split(s, sep)\<close> for a separator of one byte, which is every call in the
  source: the pieces between the separators, one more than there are separators.
\<close>

fun Split :: "string \<Rightarrow> char \<Rightarrow> string list" where
  "Split [] sep = [[]]"
| "Split (c # s) sep =
     (if c = sep then [] # Split s sep
      else (case Split s sep of [] \<Rightarrow> [[c]] | p # ps \<Rightarrow> (c # p) # ps))"

text \<open>
  \<open>strings.SplitN(s, sep, 2)\<close> for a separator of one byte: the text before the first
  separator and the unsplit rest, or \<open>s\<close> alone when it holds no separator.
\<close>

definition SplitN2 :: "string \<Rightarrow> char \<Rightarrow> string list" where
  "SplitN2 s sep =
     (if sep \<in> set s then [takeWhile (\<lambda>c. c \<noteq> sep) s, tl (dropWhile (\<lambda>c. c \<noteq> sep) s)]
      else [s])"



text \<open>The decimal form \<open>%v\<close> prints for a length.\<close>

fun itoa :: "nat \<Rightarrow> string" where
  "itoa n =
     (if n < 10 then [char_of (48 + n)] else itoa (n div 10) @ [char_of (48 + n mod 10)])"

declare itoa.simps [simp del]

section \<open>Local revision\<close>

definition gitRevisionLength :: nat where
  "gitRevisionLength = 40"

definition rev_parse_cmd :: "string \<Rightarrow> string list" where
  "rev_parse_cmd defaultBranch = [''git'', ''rev-parse'', defaultBranch]"

definition git28_LocalRevision :: "tool \<Rightarrow> string \<Rightarrow> string \<Rightarrow> string \<times> error option" where
  "git28_LocalRevision run dir defaultBranch =
     (let r = run dir (rev_parse_cmd defaultBranch) in
      case err r of
        Some e \<Rightarrow> ('''', Some (ExecError e))
      | None \<Rightarrow>
          if length (stdout r) < gitRevisionLength
          then ('''', Some (Errorf (''output length '' @ itoa (length (stdout r))
                  @ '' is shorter than '' @ itoa gitRevisionLength)))
          else (take gitRevisionLength (stdout r), None))"

definition git17_LocalRevision :: "tool \<Rightarrow> string \<Rightarrow> string \<Rightarrow> string \<times> error option" where
  "git17_LocalRevision run dir defaultBranch =
     (let r = run dir (rev_parse_cmd defaultBranch) in
      case err r of
        Some e \<Rightarrow> ('''', Some (ExecError e))
      | None \<Rightarrow>
          if length (stdout r) < gitRevisionLength
          then ('''', Some (Errorf (''output length '' @ itoa (length (stdout r))
                  @ '' is shorter than '' @ itoa gitRevisionLength)))
          else (take gitRevisionLength (stdout r), None))"

text \<open>\<open>CheckGitRepoLocal\<close> of package vcs has no error result: it returns the empty string.\<close>

definition CheckGitRepoLocal :: "tool \<Rightarrow> string \<Rightarrow> string \<Rightarrow> string" where
  "CheckGitRepoLocal run path branch =
     (let r = run path (rev_parse_cmd branch) in
      if err r = None \<and> length (stdout r) \<ge> gitRevisionLength
      then take gitRevisionLength (stdout r) else '''')"

section \<open>Containment checks\<close>

text \<open>\<open>fmt.Sprintf("error: no such commit %s\n", revision)\<close>.\<close>

definition no_such_commit :: "string \<Rightarrow> string" where
  "no_such_commit revision = ''error: no such commit '' @ revision @ [nl]"

definition git28_Contains_cmd :: "string \<Rightarrow> string \<Rightarrow> string list" where
  "git28_Contains_cmd revision defaultBranch =
     [''git'', ''for-each-ref'', ''--format=contains'', ''--count=1'', ''--contains'', revision,
      ''refs/heads/'' @ defaultBranch]"

definition git28_Contains :: "tool \<Rightarrow> string \<Rightarrow> string \<Rightarrow> string \<Rightarrow> bool \<times> error option" where
  "git28_Contains run dir revision defaultBranch =
     (let r = run dir (git28_Contains_cmd revision defaultBranch) in
      case err r of
        None \<Rightarrow> (stdout r = ''contains'' @ [nl], None)
      | Some e \<Rightarrow>
          if HasPrefix (stderr r) (no_such_commit revision) then (False, None)
          else (False, Some (ExecError e)))"

definition git28_RemoteContains_cmd :: "string \<Rightarrow> string \<Rightarrow> string list" where
  "git28_RemoteContains_cmd revision defaultBranch =
     [''git'', ''for-each-ref'', ''--format=contains'', ''--count=1'', ''--contains'', revision,
      ''refs/remotes/origin/'' @ defaultBranch]"

definition git28_RemoteContains :: "tool \<Rightarrow> string \<Rightarrow> string \<Rightarrow> string \<Rightarrow> bool \<times> error option" where
  "git28_RemoteContains run dir revision defaultBranch =
     (let r = run dir (git28_RemoteContains_cmd revision defaultBranch) in
      case err r of
        None \<Rightarrow> (stdout r = ''contains'' @ [nl], None)
      | Some e \<Rightarrow>
          if HasPrefix (stderr r) (no_such_commit revision) then (False, None)
          else (False, Some (ExecError e)))"

definition git17_Contains_cmd :: "string \<Rightarrow> string \<Rightarrow> string list" where
  "git17_Contains_cmd revision defaultBranch =
     [''git'', ''branch'', ''--contains'', revision, defaultBranch]"

definition git17_Contains :: "tool \<Rightarrow> string \<Rightarrow> string \<Rightarrow> string \<Rightarrow> bool \<times> error option" where
  "git17_Contains run dir revision defaultBranch =
     (let r = run dir (git17_Contains_cmd revision defaultBranch) in
      case err r of
        None \<Rightarrow>
          (stdout r = ''* '' @ defaultBranch @ [nl] \<or> stdout r = ''  '' @ defaultBranch @ [nl],
           None)
      | Some e \<Rightarrow>
          if HasPrefix (stderr r) (no_such_commit revision) then (False, None)
          else (False, Some (ExecError e)))"

definition git17_RemoteContains_cmd :: "string \<Rightarrow> string \<Rightarrow> string list" where
  "git17_RemoteContains_cmd revision defaultBranch =
     [''git'', ''branch'', ''-r'', ''--contains'', revision, ''origin/'' @ defaultBranch]"

definition git17_RemoteContains :: "tool \<Rightarrow> string \<Rightarrow> string \<Rightarrow> string \<Rightarrow> bool \<times> error option" where
  "git17_RemoteContains run dir revision defaultBranch =
     (let r = run dir (git17_RemoteContains_cmd revision defaultBranch) in
      case err r of
        None \<Rightarrow> (stdout r = ''  origin/'' @ defaultBranch @ [nl], None)
      | Some e \<Rightarrow>
          if HasPrefix (stderr r) (no_such_commit revision) then (False, None)
          else (False, Some (ExecError e)))"

text \<open>The four containment checks, each with the command line it runs.\<close>

definition containment_checks ::
  "((tool \<Rightarrow> string \<Rightarrow> string \<Rightarrow> string \<Rightarrow> bool \<times> error option)
    \<times> (string \<Rightarrow> string \<Rightarrow> string list)) list" where
  "containment_checks =
     [(git28_Contains, git28_Contains_cmd), (git28_RemoteContains, git28_RemoteContains_cmd),
      (git17_Contains, git17_Contains_cmd), (git17_RemoteContains, git17_RemoteContains_cmd)]"

section \<open>Parsers of the tool's output\<close>

text \<open>
  Each parser cuts the last byte off the output, splits the rest at newlines and walks
  the lines.  A parser returns its Go results, the error among them, or panics: indexing
  the pieces of a line with \<open>[1]\<close> panics when the line has no tab, and slicing a
  reference from \<open>len("refs/heads/")\<close> panics when the reference is shorter.
\<close>

fun parseGit17Remote_lines :: "string list \<Rightarrow> panic + string \<times> error option" where
  "parseGit17Remote_lines [] = Inr ('''', Some (ErrorsNew ''no origin remote''))"
| "parseGit17Remote_lines (line # lines) =
     (case Split line tab of
        name # urlKind # _ \<Rightarrow>
          if name \<noteq> ''origin'' then parseGit17Remote_lines lines
          else if \<not> HasSuffix urlKind '' (fetch)'' then parseGit17Remote_lines lines
          else Inr (take (length urlKind - length '' (fetch)'') urlKind, None)
      | _ \<Rightarrow> Inl IndexOutOfRange)"

definition parseGit17Remote :: "string \<Rightarrow> panic + string \<times> error option" where
  "parseGit17Remote out =
     (if length out = 0 then Inr ('''', Some (ErrorsNew ''no origin remote''))
      else parseGit17Remote_lines (Split (take (length out - 1) out) nl))"

text \<open>The loop of \<open>parseGit17LsRemote\<close> carries \<open>branch\<close> and \<open>revision\<close>, both empty at first.\<close>

fun parseGit17LsRemote_lines ::
  "string list \<Rightarrow> string \<Rightarrow> string \<Rightarrow> panic + string \<times> string \<times> error option" where
  "parseGit17LsRemote_lines [] branch revision =
     (if branch = '''' \<or> revision = ''''
      then Inr ('''', '''', Some (ErrorsNew ''HEAD branch or revision not found in ls-remote output''))
      else Inr (branch, revision, None))"
| "parseGit17LsRemote_lines (line # lines) branch revision =
     (case Split line tab of
        rv # ref # _ \<Rightarrow>
          if ref = ''HEAD'' then parseGit17LsRemote_lines lines branch rv
          else if rv = revision \<and> branch \<noteq> ''master'' then
            (if length ref < length ''refs/heads/'' then Inl SliceBoundsOutOfRange
             else parseGit17LsRemote_lines lines (drop (length ''refs/heads/'') ref) revision)
          else parseGit17LsRemote_lines lines branch revision
      | _ \<Rightarrow> Inl IndexOutOfRange)"

definition parseGit17LsRemote :: "string \<Rightarrow> panic + string \<times> string \<times> error option" where
  "parseGit17LsRemote out =
     (if length out = 0 then Inr ('''', '''', Some (ErrorsNew ''empty ls-remote output''))
      else parseGit17LsRemote_lines (Split (take (length out - 1) out) nl) '''' '''')"

text \<open>
  The loop of \<open>parseGit28LsRemote\<close> returns as soon as it holds a branch and a revision;
  at the end of the lines a revision without a branch is \<open>errBranchNotFound\<close>, returned
  together with the revision.
\<close>

fun parseGit28LsRemote_lines ::
  "string list \<Rightarrow> string \<Rightarrow> string \<Rightarrow> panic + string \<times> string \<times> error option" where
  "parseGit28LsRemote_lines [] branch revision =
     (if branch = '''' \<and> revision \<noteq> '''' then Inr ('''', revision, Some errBranchNotFound)
      else Inr ('''', '''', Some (ErrorsNew ''HEAD branch or revision not found in ls-remote output'')))"
| "parseGit28LsRemote_lines (line # lines) branch revision =
     (case SplitN2 line tab of
        p0 # p1 # _ \<Rightarrow>
          if p1 \<noteq> ''HEAD'' then parseGit28LsRemote_lines lines branch revision
          else if HasPrefix p0 ''ref: refs/heads/'' then
            (if drop (length ''ref: refs/heads/'') p0 \<noteq> '''' \<and> revision \<noteq> ''''
             then Inr (drop (length ''ref: refs/heads/'') p0, revision, None)
             else parseGit28LsRemote_lines lines (drop (length ''ref: refs/heads/'') p0) revision)
          else
            (if branch \<noteq> '''' \<and> p0 \<noteq> ''''
             then Inr (branch, p0, None)
             else parseGit28LsRemote_lines lines branch p0)
      | _ \<Rightarrow> Inl IndexOutOfRange)"

definition parseGit28LsRemote :: "string \<Rightarrow> panic + string \<times> string \<times> error option" where
  "parseGit28LsRemote out =
     (if length out = 0 then Inr ('''', '''', Some (ErrorsNew ''empty ls-remote output''))
      else parseGit28LsRemote_lines (Split (take (length out - 1) out) nl) '''' '''')"

fun guessBranch_lines :: "string list \<Rightarrow> string \<Rightarrow> string \<Rightarrow> panic + string \<times> error option" where
  "guessBranch_lines [] revision branch =
     (if branch = '''' then Inr ('''', Some errBranchNotFound) else Inr (branch, None))"
| "guessBranch_lines (line # lines) revision branch =
     (case SplitN2 line tab of
        rv # ref # _ \<Rightarrow>
          if rv \<noteq> revision \<or> ref = ''HEAD'' then guessBranch_lines lines revision branch
          else if branch \<noteq> ''master'' then
            (if length ref < length ''refs/heads/'' then Inl SliceBoundsOutOfRange
             else guessBranch_lines lines revision (drop (length ''refs/heads/'') ref))
          else guessBranch_lines lines revision branch
      | _ \<Rightarrow> Inl IndexOutOfRange)"

definition guessBranch :: "string \<Rightarrow> string \<Rightarrow> panic + string \<times> error option" where
  "guessBranch out revision =
     (if length out = 0 then Inr ('''', Some (ErrorsNew ''empty ls-remote output''))
      else guessBranch_lines (Split (take (length out - 1) out) nl) revision '''')"

section \<open>Remote URL, remote branch and remote revision\<close>













definition ls_remote_cmd :: "string \<Rightarrow> string list" where
  "ls_remote_cmd remote = [''git'', ''ls-remote'', remote, ''HEAD'', ''refs/heads/*'']"




definition remoteGit17_RemoteBranchAndRevision ::
  "tool \<Rightarrow> string \<Rightarrow> panic + string \<times> string \<times> error option" where
  "remoteGit17_RemoteBranchAndRevision run remoteURL =
     (let r = run '''' (ls_remote_cmd remoteURL) in
      case err r of
        Some e \<Rightarrow> Inr ('''', '''', Some (Errorf (e @ '': '' @ TrimSuffix (stderr r) [nl])))
      | None \<Rightarrow> parseGit17LsRemote (stdout r))"

section \<open>Text the tool prints\<close>

text \<open>
  The tool's listings are lines of two fields with a tab between them and a newline after
  each: \<open>git ls-remote\<close> prints the revision of \<open>HEAD\<close> first and then one line per
  branch, \<open>revision\<close>, tab, \<open>refs/heads/name\<close>; \<open>git remote -v\<close> prints \<open>name\<close>, tab,
  \<open>url (kind)\<close>.  A field holds no tab and no newline.
\<close>

definition newline_each :: "string list \<Rightarrow> string" where
  "newline_each ls = concat (map (\<lambda>l. l @ [nl]) ls)"

definition branch_line :: "string \<times> string \<Rightarrow> string" where
  "branch_line b = fst b @ [tab] @ ''refs/heads/'' @ snd b"

definition ls_remote_output :: "string \<Rightarrow> (string \<times> string) list \<Rightarrow> string" where
  "ls_remote_output head branches =
     newline_each ((head @ [tab] @ ''HEAD'') # map branch_line branches)"



definition field :: "string \<Rightarrow> bool" where
  "field s = (tab \<notin> set s \<and> nl \<notin> set s)"

definition all_fields :: "(string \<times> string) list \<Rightarrow> bool" where
  "all_fields ps = (\<forall>(a, b) \<in> set ps. field a \<and> field b)"

text \<open>
  What the branch loops of \<open>parseGit17LsRemote\<close> and \<open>guessBranch\<close> keep of a list of
  branch lines: every line of the sought revision replaces the branch held so far, unless
  that is \<open>master\<close>.
\<close>

fun held_branch :: "string \<Rightarrow> (string \<times> string) list \<Rightarrow> string \<Rightarrow> string" where
  "held_branch revision [] branch = branch"
| "held_branch revision ((rv, name) # branches) branch =
     held_branch revision branches (if rv = revision \<and> branch \<noteq> ''master'' then name else branch)"

section \<open>Sample tools and sample text\<close>

text \<open>A tool that gives the same answer to every command.\<close>

definition answer :: "cmd_result \<Rightarrow> tool" where
  "answer r dir argv = r"


definition is_hex :: "char \<Rightarrow> bool" where
  "is_hex c = (c \<in> set ''0123456789abcdefABCDEF'')"

section \<open>Splitting the tool's text into lines and fields\<close>

lemma Split_no_sep: "sep \<notin> set s \<Longrightarrow> Split s sep = [s]"
  by (induction s) auto

lemma Split_append_sep: "sep \<notin> set a \<Longrightarrow> Split (a @ sep # s) sep = a # Split s sep"
  by (induction a) auto

lemma SplitN2_append_sep: "sep \<notin> set a \<Longrightarrow> SplitN2 (a @ sep # s) sep = [a, s]"
  by (induction a) (auto simp: SplitN2_def)

lemma Split_newline_each:
  "ls \<noteq> [] \<Longrightarrow> \<forall>l \<in> set ls. nl \<notin> set l \<Longrightarrow>
   Split (take (length (newline_each ls) - 1) (newline_each ls)) nl = ls"
proof (induction ls)
  case Nil
  then show ?case by simp
next
  case (Cons l ls)
  show ?case
  proof (cases "ls = []")
    case True
    with Cons.prems show ?thesis by (simp add: Split_no_sep newline_each_def)
  next
    case False
    then have "newline_each ls \<noteq> []"
      by (cases ls) (auto simp: newline_each_def)
    then have "take (length (newline_each (l # ls)) - 1) (newline_each (l # ls))
        = l @ nl # take (length (newline_each ls) - 1) (newline_each ls)"
      by (cases "newline_each ls") (auto simp: newline_each_def)
    with Cons False show ?thesis
      by (simp add: Split_append_sep)
  qed
qed

lemma newline_each_nonempty: "ls \<noteq> [] \<Longrightarrow> length (newline_each ls) \<noteq> 0"
  by (cases ls) (auto simp: newline_each_def)

lemma branch_line_no_nl: "all_fields bs \<Longrightarrow> \<forall>l \<in> set (map branch_line bs). nl \<notin> set l"
  by (auto simp: all_fields_def field_def branch_line_def)


section \<open>The branch loops on a listing\<close>

lemma parseGit17LsRemote_lines_branches:
  "all_fields bs \<Longrightarrow>
   parseGit17LsRemote_lines (map branch_line bs @ rest) branch revision
   = parseGit17LsRemote_lines rest (held_branch revision bs branch) revision"
proof (induction bs arbitrary: branch)
  case Nil
  then show ?case by simp
next
  case (Cons p bs)
  obtain rv name where p: "p = (rv, name)" by (cases p)
  from Cons.prems p have f: "tab \<notin> set rv" "tab \<notin> set name" and rest: "all_fields bs"
    by (auto simp: all_fields_def field_def)
  have line: "Split (branch_line (rv, name)) tab = [rv, ''refs/heads/'' @ name]"
    using f by (simp add: branch_line_def Split_append_sep Split_no_sep)
  show ?case
    by (simp add: p line Cons.IH [OF rest])
qed

lemma guessBranch_lines_branches:
  "all_fields bs \<Longrightarrow>
   guessBranch_lines (map branch_line bs @ rest) revision branch
   = guessBranch_lines rest revision (held_branch revision bs branch)"
proof (induction bs arbitrary: branch)
  case Nil
  then show ?case by simp
next
  case (Cons p bs)
  obtain rv name where p: "p = (rv, name)" by (cases p)
  from Cons.prems p have f: "tab \<notin> set rv" and rest: "all_fields bs"
    by (auto simp: all_fields_def field_def)
  have line: "SplitN2 (branch_line (rv, name)) tab = [rv, ''refs/heads/'' @ name]"
    using f by (simp add: branch_line_def SplitN2_append_sep)
  show ?case
    by (simp add: p line Cons.IH [OF rest])
qed

lemma held_branch_master: "held_branch revision bs ''master'' = ''master''"
  by (induction bs) auto

lemma held_branch_has_master:
  "(revision, ''master'') \<in> set bs \<Longrightarrow> held_branch revision bs branch = ''master''"
  by (induction bs arbitrary: branch) (auto simp: held_branch_master)

lemma held_branch_last:
  "branch \<noteq> ''master'' \<Longrightarrow> \<forall>(rv, name) \<in> set bs. rv = revision \<longrightarrow> name \<noteq> ''master'' \<Longrightarrow>
   held_branch revision bs branch
   = (case filter (\<lambda>(rv, name). rv = revision) bs of [] \<Rightarrow> branch | m # ms \<Rightarrow> snd (last (m # ms)))"
  by (induction bs arbitrary: branch) (auto split: list.splits)

lemma parseGit17LsRemote_output:
  assumes "field head" "all_fields bs"
  shows "parseGit17LsRemote (ls_remote_output head bs)
     = parseGit17LsRemote_lines [] (held_branch head bs '''') head"
proof -
  let ?ls = "(head @ [tab] @ ''HEAD'') # map branch_line bs"
  have "\<forall>l \<in> set ?ls. nl \<notin> set l"
    using assms branch_line_no_nl [of bs] by (auto simp: field_def)
  then have "Split (take (length (newline_each ?ls) - 1) (newline_each ?ls)) nl = ?ls"
    by (intro Split_newline_each) auto
  moreover have "length (newline_each ?ls) \<noteq> 0"
    by (rule newline_each_nonempty) simp
  moreover have "Split (head @ [tab] @ ''HEAD'') tab = [head, ''HEAD'']"
    using assms(1) by (simp add: field_def Split_append_sep Split_no_sep)
  ultimately show ?thesis
    using parseGit17LsRemote_lines_branches [OF assms(2), of "[]" "''''" head]
    by (simp add: parseGit17LsRemote_def ls_remote_output_def)
qed

lemma guessBranch_output:
  assumes "field head" "all_fields bs"
  shows "guessBranch (ls_remote_output head bs) head
     = guessBranch_lines [] head (held_branch head bs '''')"
proof -
  let ?ls = "(head @ [tab] @ ''HEAD'') # map branch_line bs"
  have "\<forall>l \<in> set ?ls. nl \<notin> set l"
    using assms branch_line_no_nl [of bs] by (auto simp: field_def)
  then have "Split (take (length (newline_each ?ls) - 1) (newline_each ?ls)) nl = ?ls"
    by (intro Split_newline_each) auto
  moreover have "length (newline_each ?ls) \<noteq> 0"
    by (rule newline_each_nonempty) simp
  moreover have "SplitN2 (head @ [tab] @ ''HEAD'') tab = [head, ''HEAD'']"
    using assms(1) by (simp add: field_def SplitN2_append_sep)
  ultimately show ?thesis
    using guessBranch_lines_branches [OF assms(2), of "[]" head "''''"]
    by (simp add: guessBranch_def ls_remote_output_def)
qed

section \<open>The remote list without origin\<close>



section \<open>Sample answers of the tool\<close>



section \<open>Local revision: length\<close>

text \<open>
  C1.  Whatever the tool answers to \<open>git rev-parse\<close>, in both strategies: when its
  stdout has fewer than 40 bytes, \<open>LocalRevision\<close> returns an error (and the empty string);
  and a revision it returns without an error has exactly 40 bytes.  \<open>CheckGitRepoLocal\<close>,
  which has no error result, returns the empty string or 40 bytes.
\<close>

theorem LocalRevision_short_is_error_else_40:
  fixes run :: tool
  defines "out \<equiv> \<lambda>dir b. stdout (run dir (rev_parse_cmd b))"
  shows "(length (out dir b) < 40 \<longrightarrow> (\<exists>e. git28_LocalRevision run dir b = ('''', Some e)))
       \<and> (length (out dir b) < 40 \<longrightarrow> (\<exists>e. git17_LocalRevision run dir b = ('''', Some e)))
       \<and> (\<forall>revision. git28_LocalRevision run dir b = (revision, None) \<longrightarrow> length revision = 40)
       \<and> (\<forall>revision. git17_LocalRevision run dir b = (revision, None) \<longrightarrow> length revision = 40)
       \<and> (CheckGitRepoLocal run dir b = '''' \<or> length (CheckGitRepoLocal run dir b) = 40)"
  unfolding out_def
  by (auto simp: git28_LocalRevision_def git17_LocalRevision_def CheckGitRepoLocal_def
      gitRevisionLength_def Let_def split: option.splits if_splits)

theorem LocalRevision_short_is_error_else_40_witness:
  "git28_LocalRevision (answer \<lparr>stdout = ''7cafcd8'' @ [nl], stderr = '''', err = None\<rparr>)
      ''/repo'' ''master'' = ('''', Some (Errorf ''output length 8 is shorter than 40''))
   \<and> git17_LocalRevision (answer \<lparr>stdout = ''7cafcd8'' @ [nl], stderr = '''', err = None\<rparr>)
      ''/repo'' ''master'' = ('''', Some (Errorf ''output length 8 is shorter than 40''))
   \<and> git28_LocalRevision
        (answer \<lparr>stdout = ''7cafcd837844e784b526369c9bce262804aebc60'' @ [nl], stderr = '''',
                 err = None\<rparr>) ''/repo'' ''master''
      = (''7cafcd837844e784b526369c9bce262804aebc60'', None)
   \<and> length ''7cafcd837844e784b526369c9bce262804aebc60'' = 40"
proof -
  have digits: "itoa (length (''7cafcd8'' @ [nl])) = ''8''" "itoa 40 = ''40''"
    by code_simp+
  show ?thesis
    using digits LocalRevision_short_is_error_else_40
       [of "answer \<lparr>stdout = ''7cafcd8'' @ [nl], stderr = '''', err = None\<rparr>" "''/repo''" "''master''"]
      LocalRevision_short_is_error_else_40
       [of "answer \<lparr>stdout = ''7cafcd837844e784b526369c9bce262804aebc60'' @ [nl], stderr = '''',
                    err = None\<rparr>" "''/repo''" "''master''"]
    by (simp add: git28_LocalRevision_def git17_LocalRevision_def answer_def gitRevisionLength_def)
qed

section \<open>Local revision: content\<close>

text \<open>
  C8, as the code has it.  A revision that \<open>LocalRevision\<close> returns without an error is
  the first 40 bytes of the tool's stdout: it has length 40, and it consists of
  hexadecimal digits exactly when those 40 bytes do.  The code never looks at the bytes.
\<close>

theorem LocalRevision_is_first_40_bytes:
  assumes "git28_LocalRevision run dir b = (revision, None) \<or> git17_LocalRevision run dir b = (revision, None)"
  shows "length revision = 40 \<and> revision = take 40 (stdout (run dir (rev_parse_cmd b)))
       \<and> ((\<forall>c \<in> set revision. is_hex c)
            = (\<forall>c \<in> set (take 40 (stdout (run dir (rev_parse_cmd b)))). is_hex c))"
  using assms
  by (auto simp: git28_LocalRevision_def git17_LocalRevision_def gitRevisionLength_def Let_def
      split: option.splits if_splits)

theorem LocalRevision_is_first_40_bytes_witness:
  "git28_LocalRevision
      (answer \<lparr>stdout = ''7cafcd837844e784b526369c9bce262804aebc60'' @ [nl], stderr = '''',
               err = None\<rparr>) ''/repo'' ''master''
     = (''7cafcd837844e784b526369c9bce262804aebc60'', None)
   \<and> list_all is_hex ''7cafcd837844e784b526369c9bce262804aebc60''"
  using LocalRevision_is_first_40_bytes
     [of "answer \<lparr>stdout = ''7cafcd837844e784b526369c9bce262804aebc60'' @ [nl], stderr = '''',
                  err = None\<rparr>" "''/repo''" "''master''"
         "''7cafcd837844e784b526369c9bce262804aebc60''"]
  by (simp add: git28_LocalRevision_def answer_def gitRevisionLength_def is_hex_def)

text \<open>
  The sentence of the specification fails: on a zero exit with 40 bytes that are
  not hexadecimal digits, both strategies return those bytes as the revision.
\<close>

theorem LocalRevision_not_hex_counterexample:
  "git28_LocalRevision
      (answer \<lparr>stdout = ''refs/heads/master is not a revision, no!'' @ [nl], stderr = '''',
               err = None\<rparr>) ''/repo'' ''master''
     = (''refs/heads/master is not a revision, no!'', None)
   \<and> git17_LocalRevision
      (answer \<lparr>stdout = ''refs/heads/master is not a revision, no!'' @ [nl], stderr = '''',
               err = None\<rparr>) ''/repo'' ''master''
     = (''refs/heads/master is not a revision, no!'', None)
   \<and> \<not> is_hex (CHR ''r'') \<and> CHR ''r'' \<in> set ''refs/heads/master is not a revision, no!''"
  by (simp add: git28_LocalRevision_def git17_LocalRevision_def answer_def gitRevisionLength_def
      is_hex_def)

section \<open>Containment checks: the exit status and the two markers\<close>

text \<open>
  C9.  When the tool exits with status zero, each containment check returns no error,
  and returns true exactly when stdout is the expected line: \<open>contains\<close> and a newline
  in the modern strategy; in the legacy strategy the branch-listing line of the default
  branch, which is \<open>* branch\<close> or \<open>  branch\<close> for \<open>Contains\<close> and \<open>  origin/branch\<close>
  for \<open>RemoteContains\<close>.  Any other stdout gives false, not an error.
\<close>

theorem Contains_zero_exit_marker:
  "(err (run dir (git28_Contains_cmd revision b)) = None \<longrightarrow>
      git28_Contains run dir revision b
        = (stdout (run dir (git28_Contains_cmd revision b)) = ''contains'' @ [nl], None))
   \<and> (err (run dir (git28_RemoteContains_cmd revision b)) = None \<longrightarrow>
      git28_RemoteContains run dir revision b
        = (stdout (run dir (git28_RemoteContains_cmd revision b)) = ''contains'' @ [nl], None))
   \<and> (err (run dir (git17_Contains_cmd revision b)) = None \<longrightarrow>
      git17_Contains run dir revision b
        = (stdout (run dir (git17_Contains_cmd revision b)) \<in> {''* '' @ b @ [nl], ''  '' @ b @ [nl]},
           None))
   \<and> (err (run dir (git17_RemoteContains_cmd revision b)) = None \<longrightarrow>
      git17_RemoteContains run dir revision b
        = (stdout (run dir (git17_RemoteContains_cmd revision b)) = ''  origin/'' @ b @ [nl], None))"
  by (simp add: git28_Contains_def git28_RemoteContains_def git17_Contains_def
      git17_RemoteContains_def Let_def)

theorem Contains_zero_exit_marker_witness:
  "git28_Contains (answer \<lparr>stdout = ''contains'' @ [nl], stderr = '''', err = None\<rparr>)
      ''/repo'' ''7cafcd8'' ''master'' = (True, None)
   \<and> git28_RemoteContains (answer \<lparr>stdout = ''contains'' @ [nl], stderr = '''', err = None\<rparr>)
      ''/repo'' ''7cafcd8'' ''master'' = (True, None)
   \<and> git17_Contains (answer \<lparr>stdout = ''contains'' @ [nl], stderr = '''', err = None\<rparr>)
      ''/repo'' ''7cafcd8'' ''master'' = (False, None)
   \<and> git17_RemoteContains (answer \<lparr>stdout = ''contains'' @ [nl], stderr = '''', err = None\<rparr>)
      ''/repo'' ''7cafcd8'' ''master'' = (False, None)"
  using Contains_zero_exit_marker
     [of "answer \<lparr>stdout = ''contains'' @ [nl], stderr = '''', err = None\<rparr>" "''/repo''"
         "''7cafcd8''" "''master''"]
  by (simp add: answer_def)

section \<open>Containment checks: the missing commit\<close>

text \<open>
  C4, as the code has it.  When the tool exits with a non-zero status, each containment
  check returns false, and returns no error exactly when stderr begins with
  \<open>error: no such commit\<close>, the queried revision and a newline (whatever follows);
  a non-zero exit whose stderr does not begin so is returned as the tool's error.
\<close>

theorem Contains_no_such_commit_prefix:
  assumes "(check, cmd) \<in> set containment_checks"
    and "err (run dir (cmd revision b)) = Some e"
  shows "check run dir revision b
     = (False,
        if HasPrefix (stderr (run dir (cmd revision b)))
             (''error: no such commit '' @ revision @ [nl])
        then None else Some (ExecError e))"
  using assms
  by (auto simp: containment_checks_def git28_Contains_def git28_RemoteContains_def
      git17_Contains_def git17_RemoteContains_def no_such_commit_def Let_def)

theorem Contains_no_such_commit_prefix_witness:
  "git17_RemoteContains
      (answer \<lparr>stdout = '''', stderr = ''error: no such commit 7cafcd8'' @ [nl],
               err = Some ''exit status 129''\<rparr>) ''/repo'' ''7cafcd8'' ''master'' = (False, None)
   \<and> git28_Contains
      (answer \<lparr>stdout = '''', stderr = ''fatal: not a git repository'' @ [nl],
               err = Some ''exit status 128''\<rparr>) ''/repo'' ''7cafcd8'' ''master''
     = (False, Some (ExecError ''exit status 128''))"
  using Contains_no_such_commit_prefix
     [of git17_RemoteContains git17_RemoteContains_cmd
         "answer \<lparr>stdout = '''', stderr = ''error: no such commit 7cafcd8'' @ [nl],
                  err = Some ''exit status 129''\<rparr>" "''/repo''" "''7cafcd8''" "''master''"
         "''exit status 129''"]
    Contains_no_such_commit_prefix
     [of git28_Contains git28_Contains_cmd
         "answer \<lparr>stdout = '''', stderr = ''fatal: not a git repository'' @ [nl],
                  err = Some ''exit status 128''\<rparr>" "''/repo''" "''7cafcd8''" "''master''"
         "''exit status 128''"]
  by (simp add: containment_checks_def answer_def HasPrefix_def)

text \<open>
  The sentence of the specification fails in its second half: a non-zero exit
  whose stderr is not exactly the message, but begins with it, is not returned as an error.
\<close>

theorem Contains_other_stderr_counterexample:
  "''error: no such commit 7cafcd8'' @ [nl] @ ''fatal: bad object'' @ [nl]
     \<noteq> ''error: no such commit 7cafcd8'' @ [nl]
   \<and> git28_Contains
      (answer \<lparr>stdout = '''',
               stderr = ''error: no such commit 7cafcd8'' @ [nl] @ ''fatal: bad object'' @ [nl],
               err = Some ''exit status 128''\<rparr>) ''/repo'' ''7cafcd8'' ''master'' = (False, None)
   \<and> git17_Contains
      (answer \<lparr>stdout = '''',
               stderr = ''error: no such commit 7cafcd8'' @ [nl] @ ''fatal: bad object'' @ [nl],
               err = Some ''exit status 128''\<rparr>) ''/repo'' ''7cafcd8'' ''master'' = (False, None)"
  by (simp add: git28_Contains_def git17_Contains_def answer_def HasPrefix_def no_such_commit_def)

section \<open>Branch resolution: master wins\<close>

text \<open>
  C2.  Take a listing as \<open>git ls-remote\<close> prints it: the line of \<open>HEAD\<close> first, then
  any number of branch lines in any order.  When one of the branch lines pairs the revision
  of \<open>HEAD\<close> with \<open>refs/heads/master\<close>, \<open>parseGit17LsRemote\<close> returns the branch
  \<open>master\<close> (with that revision, no error), and \<open>guessBranch\<close>, asked for that revision,
  returns \<open>master\<close>, wherever the line of \<open>master\<close> stands among the branch lines and
  whatever other branches share the revision.
\<close>

theorem master_preferred:
  assumes "field head" and "head \<noteq> ''''" and "all_fields branches"
    and "(head, ''master'') \<in> set branches"
  shows "parseGit17LsRemote (ls_remote_output head branches) = Inr (''master'', head, None)
       \<and> guessBranch (ls_remote_output head branches) head = Inr (''master'', None)"
  using assms
  by (simp add: parseGit17LsRemote_output guessBranch_output held_branch_has_master)

theorem master_preferred_witness:
  "parseGit17LsRemote
      (''7cafcd8'' @ [tab] @ ''HEAD'' @ [nl] @ ''7cafcd8'' @ [tab] @ ''refs/heads/main'' @ [nl]
       @ ''7cafcd8'' @ [tab] @ ''refs/heads/master'' @ [nl]) = Inr (''master'', ''7cafcd8'', None)
   \<and> guessBranch
      (''7cafcd8'' @ [tab] @ ''HEAD'' @ [nl] @ ''7cafcd8'' @ [tab] @ ''refs/heads/main'' @ [nl]
       @ ''7cafcd8'' @ [tab] @ ''refs/heads/master'' @ [nl]) ''7cafcd8'' = Inr (''master'', None)
   \<and> parseGit17LsRemote
      (''7cafcd8'' @ [tab] @ ''HEAD'' @ [nl] @ ''7cafcd8'' @ [tab] @ ''refs/heads/master'' @ [nl]
       @ ''7cafcd8'' @ [tab] @ ''refs/heads/main'' @ [nl]) = Inr (''master'', ''7cafcd8'', None)
   \<and> guessBranch
      (''7cafcd8'' @ [tab] @ ''HEAD'' @ [nl] @ ''7cafcd8'' @ [tab] @ ''refs/heads/master'' @ [nl]
       @ ''7cafcd8'' @ [tab] @ ''refs/heads/main'' @ [nl]) ''7cafcd8'' = Inr (''master'', None)"
  using master_preferred [of "''7cafcd8''" "[(''7cafcd8'', ''main''), (''7cafcd8'', ''master'')]"]
    master_preferred [of "''7cafcd8''" "[(''7cafcd8'', ''master''), (''7cafcd8'', ''main'')]"]
  by (simp add: ls_remote_output_def newline_each_def branch_line_def field_def all_fields_def)

section \<open>Branch resolution: no master\<close>

text \<open>
  C3, as the code has it.  On such a listing, when at least one branch line carries the
  revision of \<open>HEAD\<close> and none of those is \<open>master\<close>, both parsers return the branch of
  the last such line of the output, not of the first: each matching line overwrites the
  branch held so far.
\<close>

theorem last_match_returned:
  assumes "field head" and "head \<noteq> ''''" and "all_fields branches"
    and "\<forall>(rv, name) \<in> set branches. name \<noteq> '''' \<and> (rv = head \<longrightarrow> name \<noteq> ''master'')"
    and "filter (\<lambda>(rv, name). rv = head) branches \<noteq> []"
  shows "parseGit17LsRemote (ls_remote_output head branches)
           = Inr (snd (last (filter (\<lambda>(rv, name). rv = head) branches)), head, None)
       \<and> guessBranch (ls_remote_output head branches) head
           = Inr (snd (last (filter (\<lambda>(rv, name). rv = head) branches)), None)"
proof -
  let ?ms = "filter (\<lambda>(rv, name). rv = head) branches"
  have "held_branch head branches '''' = snd (last ?ms)"
    using assms(4,5) by (subst held_branch_last) (auto split: list.splits)
  moreover have "last ?ms \<in> set branches"
    using assms(5) last_in_set [of ?ms] by auto
  then have "snd (last ?ms) \<noteq> ''''"
    using assms(4) by (auto simp: split_beta)
  ultimately show ?thesis
    using assms(1,2,3) by (simp add: parseGit17LsRemote_output guessBranch_output)
qed

theorem last_match_returned_witness:
  "parseGit17LsRemote
      (''7cafcd8'' @ [tab] @ ''HEAD'' @ [nl] @ ''7cafcd8'' @ [tab] @ ''refs/heads/dev'' @ [nl]
       @ ''0123abc'' @ [tab] @ ''refs/heads/old'' @ [nl]
       @ ''7cafcd8'' @ [tab] @ ''refs/heads/main'' @ [nl]) = Inr (''main'', ''7cafcd8'', None)
   \<and> guessBranch
      (''7cafcd8'' @ [tab] @ ''HEAD'' @ [nl] @ ''7cafcd8'' @ [tab] @ ''refs/heads/dev'' @ [nl]
       @ ''0123abc'' @ [tab] @ ''refs/heads/old'' @ [nl]
       @ ''7cafcd8'' @ [tab] @ ''refs/heads/main'' @ [nl]) ''7cafcd8'' = Inr (''main'', None)"
  using last_match_returned
    [of "''7cafcd8''" "[(''7cafcd8'', ''dev''), (''0123abc'', ''old''), (''7cafcd8'', ''main'')]"]
  by (simp add: ls_remote_output_def newline_each_def branch_line_def field_def all_fields_def)

text \<open>
  The sentence of the specification fails: with two branches at the revision of
  \<open>HEAD\<close>, \<open>dev\<close> before \<open>main\<close>, both parsers return \<open>main\<close>.
\<close>

theorem first_match_counterexample:
  "parseGit17LsRemote
      (''7cafcd8'' @ [tab] @ ''HEAD'' @ [nl] @ ''7cafcd8'' @ [tab] @ ''refs/heads/dev'' @ [nl]
       @ ''7cafcd8'' @ [tab] @ ''refs/heads/main'' @ [nl]) = Inr (''main'', ''7cafcd8'', None)
   \<and> guessBranch
      (''7cafcd8'' @ [tab] @ ''HEAD'' @ [nl] @ ''7cafcd8'' @ [tab] @ ''refs/heads/dev'' @ [nl]
       @ ''7cafcd8'' @ [tab] @ ''refs/heads/main'' @ [nl]) ''7cafcd8'' = Inr (''main'', None)
   \<and> ''main'' \<noteq> ''dev''"
  by (simp add: parseGit17LsRemote_def guessBranch_def SplitN2_def)

section \<open>The sample listing of the specification\<close>

text \<open>
  C5, as the code has it.  With the fields in the order the tool prints them, the sample
  parses to the branch \<open>main\<close> and the revision \<open>abc...def\<close> without an error:
  \<open>parseGit28LsRemote\<close> on the symbolic reference paired with \<open>HEAD\<close>
  (\<open>ref: refs/heads/main\<close>, tab, \<open>HEAD\<close>) followed by the revision paired with
  \<open>HEAD\<close>; \<open>parseGit17LsRemote\<close> on the revision paired with \<open>HEAD\<close> followed by
  the revision paired with \<open>refs/heads/main\<close>.
\<close>

theorem sample_listing_tool_order:
  "parseGit28LsRemote
      (''ref: refs/heads/main'' @ [tab] @ ''HEAD'' @ [nl] @ ''abc...def'' @ [tab] @ ''HEAD'' @ [nl])
     = Inr (''main'', ''abc...def'', None)
   \<and> parseGit17LsRemote
      (''abc...def'' @ [tab] @ ''HEAD'' @ [nl] @ ''abc...def'' @ [tab] @ ''refs/heads/main'' @ [nl])
     = Inr (''main'', ''abc...def'', None)"
  by (simp add: parseGit28LsRemote_def parseGit17LsRemote_def SplitN2_def HasPrefix_def)

text \<open>
  On the literal sample of the specification, where the symbolic reference stands in the
  second field of a line of the revision, \<open>parseGit28LsRemote\<close> returns
  \<open>errBranchNotFound\<close> and \<open>parseGit17LsRemote\<close> returns the branch \<open>eads/main\<close>.
\<close>

theorem sample_listing_counterexample:
  "parseGit28LsRemote
      (''abc...def'' @ [tab] @ ''HEAD'' @ [nl] @ ''abc...def'' @ [tab] @ ''ref: refs/heads/main'' @ [nl])
     = Inr ('''', ''abc...def'', Some errBranchNotFound)
   \<and> parseGit17LsRemote
      (''abc...def'' @ [tab] @ ''HEAD'' @ [nl] @ ''abc...def'' @ [tab] @ ''ref: refs/heads/main'' @ [nl])
     = Inr (''eads/main'', ''abc...def'', None)"
  by (simp add: parseGit28LsRemote_def parseGit17LsRemote_def SplitN2_def HasPrefix_def)

section \<open>No origin remote\<close>



section \<open>Falling back when the listing has no symbolic reference\<close>




section \<open>A line without a tab\<close>

text \<open>
  C10.  The parsers are not total: on an output whose line holds no tab, each of the four
  indexes the second piece of the line, which does not exist, and panics instead of
  returning an error.
\<close>

theorem parsers_panic_without_tab:
  "parseGit17LsRemote (''7cafcd8'' @ [nl]) = Inl IndexOutOfRange
   \<and> parseGit28LsRemote (''7cafcd8'' @ [nl]) = Inl IndexOutOfRange
   \<and> guessBranch (''7cafcd8'' @ [nl]) ''7cafcd8'' = Inl IndexOutOfRange
   \<and> parseGit17Remote (''7cafcd8'' @ [nl]) = Inl IndexOutOfRange"
  by (simp add: parseGit17LsRemote_def parseGit28LsRemote_def guessBranch_def parseGit17Remote_def
      SplitN2_def)

end
